theory Spec2Isabelle
  imports
    Complex_Main
    "HOL-Library.Char_ord"
    "HOL-Library.List_Lexorder"
    "HOL-Library.Product_Lexorder"
    "HOL-Library.Multiset"
begin

section \<open>Data model\<close>

text \<open>
  Text values are byte strings in UTF-8, as PostgreSQL stores them and as the source file
  spells its literals. Quantities are the tonnes of the column \<open>emisiones\<close>; the program
  holds them as binary floating-point numbers, the model as exact rationals, so sums are
  exact and a decimal rendering rounds the exact quotient.

  A row of the data frame returned by \<open>load_emissions_data\<close>. The query keeps only rows
  whose \<open>region\<close>, \<open>rubro_vu\<close> and \<open>cantidad_toneladas\<close> are not NULL; the other text
  columns may be NULL, which is \<open>None\<close> here.
\<close>

record emission =
  period :: int
  region_norm :: string
  id_vu :: "string option"
  nombre_establecimiento :: "string option"
  rubro_vu :: string
  contaminantes :: "string option"
  emisiones :: rat

type_synonym dataframe = "emission list"

section \<open>Grouping and summing\<close>

text \<open>
  The script draws each of its four charts only when the filtered data frame has rows, and
  shows a warning otherwise. The definitions below are the computations of the branch that
  draws; on an empty data frame they give empty tables.

  \<open>df.groupby(key)["emisiones"].sum()\<close>: rows whose key is missing are dropped, the
  groups come out in ascending key order, and each group carries the sum of its rows.
\<close>

definition groupby_sum :: "(emission \<Rightarrow> 'k::linorder option) \<Rightarrow> dataframe \<Rightarrow> ('k \<times> rat) list" where
  "groupby_sum key df =
     map (\<lambda>k. (k, sum_list (map emisiones (filter (\<lambda>r. key r = Some k) df))))
         (sort (remdups (List.map_filter key df)))"

text \<open>
  \<open>Series.sort_values\<close>, ascending or descending. Entries with equal sums keep their
  order here; pandas' default sorting algorithm promises no order among them. No theorem
  below depends on the order of ties.
\<close>

definition sort_values :: "bool \<Rightarrow> ('k \<times> rat) list \<Rightarrow> ('k \<times> rat) list" where
  "sort_values ascending s =
     (if ascending then sort_key snd s else sort_key (\<lambda>kv. - snd kv) s)"

text \<open>Section 4.1 of the script: the totals per region, smallest first.\<close>

definition emis_region :: "dataframe \<Rightarrow> (string \<times> rat) list" where
  "emis_region df_filtrado =
     sort_values True (groupby_sum (\<lambda>r. Some (region_norm r)) df_filtrado)"


text \<open>
  Sections 4.2 and 5 of the script, and the cells of the heat map: the ten facilities of a
  group with the largest sums. The grouping key is the pair
  \<open>(id_vu, nombre_establecimiento)\<close>; a row where either is NULL belongs to no group.
\<close>

definition facility_key :: "emission \<Rightarrow> (string \<times> string) option" where
  "facility_key r =
     (case id_vu r of
        None \<Rightarrow> None
      | Some i \<Rightarrow> (case nombre_establecimiento r of None \<Rightarrow> None | Some n \<Rightarrow> Some (i, n)))"

definition top10 :: "dataframe \<Rightarrow> ((string \<times> string) \<times> rat) list" where
  "top10 df_r = take 10 (sort_values False (groupby_sum facility_key df_r))"

section \<open>Rendering numbers\<close>

definition digit_char :: "nat \<Rightarrow> char" where
  "digit_char d = ''0123456789'' ! (d mod 10)"

fun show_nat :: "nat \<Rightarrow> string" where
  "show_nat n = (if n < 10 then [digit_char n] else show_nat (n div 10) @ [digit_char (n mod 10)])"

declare show_nat.simps [simp del]

text \<open>\<open>str(i)\<close> of a Python integer.\<close>

definition show_int :: "int \<Rightarrow> string" where
  "show_int i = (if i < 0 then ''-'' @ show_nat (nat (- i)) else show_nat (nat i))"

text \<open>\<open>int(x)\<close> of a number: the fraction is cut off, towards zero.\<close>

definition py_int :: "rat \<Rightarrow> int" where
  "py_int x = (if x < 0 then - \<lfloor>- x\<rfloor> else \<lfloor>x\<rfloor>)"

text \<open>Rounding to the nearest integer, a tie going to the even neighbour.\<close>

definition round_half_even :: "rat \<Rightarrow> int" where
  "round_half_even x =
     (let f = \<lfloor>x\<rfloor>; r = x - of_int f
      in if r < 1 / 2 then f
         else if 1 / 2 < r then f + 1
         else if even f then f else f + 1)"

text \<open>
  The format specification \<open>.df\<close>: sign, integer part and exactly \<open>d\<close> decimals, with no
  point when \<open>d = 0\<close>. A negative number that rounds to zero keeps its sign, as Python's
  \<open>-0.00\<close>.
\<close>

definition format_fixed :: "nat \<Rightarrow> rat \<Rightarrow> string" where
  "format_fixed d x =
     (let n = nat (round_half_even (\<bar>x\<bar> * 10 ^ d));
          ds = show_nat n;
          padded = replicate (Suc d - length ds) (CHR ''0'') @ ds;
          k = length padded - d
      in (if x < 0 then ''-'' else [])
         @ take k padded
         @ (if d = 0 then [] else ''.'' @ drop k padded))"

section \<open>The texts of the charts\<close>

text \<open>The text inside a cell of the heat map (the loop over \<open>z_vals\<close>).\<close>

definition cell_text :: "rat \<Rightarrow> string" where
  "cell_text val =
     (if val \<ge> 1000000 then format_fixed 1 (val / 1000000) @ ''M''
      else if val \<ge> 1000 then show_int (py_int (val / 1000)) @ ''k''
      else show_int (py_int val))"

text \<open>The emission line of a cell's hover text.\<close>

definition emis_str :: "rat \<Rightarrow> string" where
  "emis_str emis =
     (if emis \<ge> 1000000 then format_fixed 1 (emis / 1000000) @ ''M Ton''
      else if emis \<ge> 1000 then format_fixed 0 (emis / 1000) @ ''k Ton''
      else format_fixed 0 emis @ '' Ton'')"

text \<open>The en dash U+2013 of the facility labels, and the accented letters of the texts.\<close>

definition en_dash :: string where
  "en_dash = [CHR 0xE2, CHR 0x80, CHR 0x93]"

definition a_acute :: string where "a_acute = [CHR 0xC3, CHR 0xA1]"
definition e_acute :: string where "e_acute = [CHR 0xC3, CHR 0xA9]"
definition i_acute :: string where "i_acute = [CHR 0xC3, CHR 0xAD]"
definition o_acute :: string where "o_acute = [CHR 0xC3, CHR 0xB3]"
definition n_tilde :: string where "n_tilde = [CHR 0xC3, CHR 0xB1]"
definition N_tilde :: string where "N_tilde = [CHR 0xC3, CHR 0x91]"

text \<open>One line of a Top 10 list: \<open>f"{id_vu} - {nombre} ({val/1e6:.2f} M)"\<close>.\<close>

definition facility_label :: "(string \<times> string) \<times> rat \<Rightarrow> string" where
  "facility_label e =
     (case e of ((ident, nombre), val) \<Rightarrow>
        ident @ '' '' @ en_dash @ '' '' @ nombre
        @ '' ('' @ format_fixed 2 (val / 1000000) @ '' M)'')"

definition lista_html :: "((string \<times> string) \<times> rat) list \<Rightarrow> string list" where
  "lista_html t = map facility_label t"

fun join :: "string \<Rightarrow> string list \<Rightarrow> string" where
  "join sep [] = []"
| "join sep [x] = x"
| "join sep (x # y # ys) = x @ sep @ join sep (y # ys)"

definition top10_html :: "dataframe \<Rightarrow> string" where
  "top10_html df_r = join ''<br>'' (lista_html (top10 df_r))"

text \<open>Section 4.2: the Top 10 text of every bar of the chart by region.\<close>

definition top10_list :: "dataframe \<Rightarrow> string list" where
  "top10_list df_filtrado =
     map (\<lambda>region. top10_html (filter (\<lambda>r. region_norm r = region) df_filtrado))
         (map fst (emis_region df_filtrado))"

text \<open>Section 5: the totals per rubro and the Top 10 text of every bar.\<close>

definition emis_rubro :: "dataframe \<Rightarrow> (string \<times> rat) list" where
  "emis_rubro df_filtrado =
     sort_values True (groupby_sum (\<lambda>r. Some (rubro_vu r)) df_filtrado)"

definition top10_rubro :: "dataframe \<Rightarrow> string list" where
  "top10_rubro df_filtrado =
     map (\<lambda>rubro. top10_html (filter (\<lambda>r. rubro_vu r = rubro) df_filtrado))
         (map fst (emis_rubro df_filtrado))"

section \<open>The heat map\<close>

text \<open>
  \<open>groupby(["region_norm", "period"]).sum().unstack(fill_value=0)\<close>: the rows of the
  table are the regions that occur, the columns the years that occur, and a pair with no
  group gets the fill value.
\<close>

definition pivot_groups :: "dataframe \<Rightarrow> ((string \<times> int) \<times> rat) list" where
  "pivot_groups df = groupby_sum (\<lambda>r. Some (region_norm r, period r)) df"

definition regions :: "dataframe \<Rightarrow> string list" where
  "regions df = sort (remdups (map (fst \<circ> fst) (pivot_groups df)))"

definition years :: "dataframe \<Rightarrow> int list" where
  "years df = sort (remdups (map (snd \<circ> fst) (pivot_groups df)))"

definition z_vals :: "dataframe \<Rightarrow> rat list list" where
  "z_vals df =
     map (\<lambda>region. map (\<lambda>year.
            (case map_of (pivot_groups df) (region, year) of None \<Rightarrow> 0 | Some v \<Rightarrow> v))
          (years df))
         (regions df)"

definition text_vals :: "dataframe \<Rightarrow> string list list" where
  "text_vals df = map (map cell_text) (z_vals df)"

definition top10_str :: "dataframe \<Rightarrow> string \<Rightarrow> int \<Rightarrow> string" where
  "top10_str df_filtrado region year =
     (let df_r_a = filter (\<lambda>r. region_norm r = region \<and> period r = year) df_filtrado
      in if df_r_a = [] then ''Sin datos'' else top10_html df_r_a)"

definition hover_html :: "dataframe \<Rightarrow> string \<Rightarrow> int \<Rightarrow> rat \<Rightarrow> string" where
  "hover_html df_filtrado region year emis =
     ''<b>Regi'' @ o_acute @ ''n:</b> '' @ region @ ''<br>''
     @ ''<b>A'' @ n_tilde @ ''o:</b> '' @ show_int year @ ''<br>''
     @ ''<b>Emisiones:</b> '' @ emis_str emis @ ''<br><br>''
     @ ''<b>Top 10 Establecimientos:</b><br>'' @ top10_str df_filtrado region year"

definition hovertext :: "dataframe \<Rightarrow> string list list" where
  "hovertext df =
     map (\<lambda>i. map (\<lambda>j. hover_html df (regions df ! i) (years df ! j) (z_vals df ! i ! j))
                 [0..<length (years df)])
         [0..<length (regions df)]"

section \<open>The filter\<close>

text \<open>
  \<open>if rubro and rubro != "Todos"\<close>: a criterion is applied when it is neither missing,
  nor the empty string (which Python takes as false), nor the word \<open>Todos\<close>.
\<close>

definition applies :: "string option \<Rightarrow> bool" where
  "applies c = (case c of None \<Rightarrow> False | Some s \<Rightarrow> s \<noteq> [] \<and> s \<noteq> ''Todos'')"

definition filtrar_emisiones ::
  "dataframe \<Rightarrow> string option \<Rightarrow> string option \<Rightarrow> string option
     \<Rightarrow> int option \<Rightarrow> int option \<Rightarrow> dataframe" where
  "filtrar_emisiones df rubro contaminante region anio_min anio_max =
     (let df2 = df;
          df2 = (if applies rubro
                 then filter (\<lambda>r. Some (rubro_vu r) = rubro) df2 else df2);
          df2 = (if applies contaminante
                 then filter (\<lambda>r. contaminantes r \<noteq> None \<and> contaminantes r = contaminante) df2
                 else df2);
          df2 = (if applies region
                 then filter (\<lambda>r. Some (region_norm r) = region) df2 else df2);
          df2 = (case (anio_min, anio_max) of
                   (Some lo, Some hi) \<Rightarrow> filter (\<lambda>r. period r \<ge> lo \<and> period r \<le> hi) df2
                 | _ \<Rightarrow> df2)
      in df2)"

section \<open>Region names\<close>

text \<open>
  PostgreSQL's \<open>TRIM(x)\<close> removes the spaces at both ends. \<open>ILIKE\<close> compares the two
  texts in lower case; in a pattern \<open>%\<close> stands for any run of characters (the patterns
  of the query use no \<open>_\<close> and no escape). Case is folded for the letters of Basic Latin
  and Latin-1, which cover the names of the regions; a Latin-1 letter is the byte
  \<open>0xC3\<close> followed by a second byte.
\<close>

definition trim :: "string \<Rightarrow> string" where
  "trim s = rev (dropWhile (\<lambda>c. c = CHR '' '') (rev (dropWhile (\<lambda>c. c = CHR '' '') s)))"

definition ascii_lower :: "char \<Rightarrow> char" where
  "ascii_lower c =
     (case map_of (zip ''ABCDEFGHIJKLMNOPQRSTUVWXYZ'' ''abcdefghijklmnopqrstuvwxyz'') c of
        Some l \<Rightarrow> l
      | None \<Rightarrow> c)"

definition ascii_upper :: "char \<Rightarrow> char" where
  "ascii_upper c =
     (case map_of (zip ''abcdefghijklmnopqrstuvwxyz'' ''ABCDEFGHIJKLMNOPQRSTUVWXYZ'') c of
        Some u \<Rightarrow> u
      | None \<Rightarrow> c)"

definition latin1_lower :: "char \<Rightarrow> char" where
  "latin1_lower c =
     (let n = of_char c :: nat
      in if 128 \<le> n \<and> n \<le> 158 \<and> n \<noteq> 151 then char_of (n + 32) else c)"

definition latin1_upper :: "char \<Rightarrow> char" where
  "latin1_upper c =
     (let n = of_char c :: nat
      in if 160 \<le> n \<and> n \<le> 190 \<and> n \<noteq> 183 then char_of (n - 32) else c)"

fun lower :: "string \<Rightarrow> string" where
  "lower [] = []"
| "lower [c] = [ascii_lower c]"
| "lower (c # d # cs) =
     (if c = CHR 0xC3 then c # latin1_lower d # lower cs
      else ascii_lower c # lower (d # cs))"

fun upper :: "string \<Rightarrow> string" where
  "upper [] = []"
| "upper [c] = [ascii_upper c]"
| "upper (c # d # cs) =
     (if c = CHR 0xC3 then c # latin1_upper d # upper cs
      else ascii_upper c # upper (d # cs))"

fun like :: "string \<Rightarrow> string \<Rightarrow> bool" where
  "like s [] = (s = [])"
| "like s (p # ps) =
     (if p = CHR ''%''
      then like s ps \<or> (case s of [] \<Rightarrow> False | _ # t \<Rightarrow> like t (p # ps))
      else (case s of [] \<Rightarrow> False | c # t \<Rightarrow> c = p \<and> like t ps))"

definition ilike :: "string \<Rightarrow> string \<Rightarrow> bool" where
  "ilike s pat = like (lower s) (lower pat)"

text \<open>The branches of the \<open>CASE\<close> expression of the query, in its order: pattern and result.\<close>

definition region_cases :: "(string \<times> string) list" where
  "region_cases =
    [(''Metropolitana%'', ''Metropolitana de Santiago''),
     (''Araucan'' @ i_acute @ ''a'', ''La Araucan'' @ i_acute @ ''a''),
     (N_tilde @ ''uble'', N_tilde @ ''uble''),
     (''Coquimbo'', ''Coquimbo''),
     (''Tarapac'' @ a_acute, ''Tarapac'' @ a_acute),
     (''Antofagasta'', ''Antofagasta''),
     (''La Araucan'' @ i_acute @ ''a'', ''La Araucan'' @ i_acute @ ''a''),
     (''Los Lagos'', ''Los Lagos''),
     (''Los R'' @ i_acute @ ''os'', ''Los R'' @ i_acute @ ''os''),
     (''Atacama'', ''Atacama''),
     (''Biob'' @ i_acute @ ''o'', ''Biob'' @ i_acute @ ''o''),
     (''Maule'', ''Maule''),
     (''Arica y Parinacota'', ''Arica y Parinacota''),
     (''Valpara'' @ i_acute @ ''so'', ''Valpara'' @ i_acute @ ''so''),
     (''Magallanes y de la Ant'' @ a_acute @ ''rtica Chilena'',
      ''Magallanes y de la Ant'' @ a_acute @ ''rtica Chilena''),
     (''Magallanes'', ''Magallanes y de la Ant'' @ a_acute @ ''rtica Chilena''),
     (''O'' @ [CHR 0x27] @ ''Higgins'',
      ''Libertador General Bernardo O'' @ [CHR 0x27] @ ''Higgins''),
     (''Libertador Gral. Bernardo O'' @ [CHR 0x27] @ ''Higgins'',
      ''Libertador General Bernardo O'' @ [CHR 0x27] @ ''Higgins''),
     (''Ays'' @ e_acute @ ''n del Gral. Carlos Ib'' @ a_acute @ n_tilde @ ''ez del Campo'',
      ''Ays'' @ e_acute @ ''n del General Carlos Ib'' @ a_acute @ n_tilde @ ''ez del Campo''),
     (''Ays'' @ e_acute @ ''n del General Carlos Ib'' @ a_acute @ n_tilde @ ''ez del Campo'',
      ''Ays'' @ e_acute @ ''n del General Carlos Ib'' @ a_acute @ n_tilde @ ''ez del Campo'')]"

text \<open>\<open>CASE WHEN ... THEN ... END\<close>: the result of the first branch whose pattern matches.\<close>

fun first_match :: "(string \<times> string) list \<Rightarrow> string \<Rightarrow> string option" where
  "first_match [] s = None"
| "first_match ((pat, res) # cases) s = (if ilike s pat then Some res else first_match cases s)"

definition case_region_norm :: "string \<Rightarrow> string" where
  "case_region_norm region =
     (case first_match region_cases (trim region) of
        Some res \<Rightarrow> res
      | None \<Rightarrow> trim region)"

text \<open>
  A row of the table \<open>air_ps.emissions_hist\<close>, and the query of \<open>load_emissions_data\<close>:
  its \<open>WHERE\<close> clause and the columns it selects.
\<close>

record emissions_hist =
  eh_period :: int
  eh_region :: "string option"
  eh_id_vu :: "string option"
  eh_nombre_establecimiento :: "string option"
  eh_rubro_vu :: "string option"
  eh_contaminantes :: "string option"
  eh_cantidad_toneladas :: "rat option"

definition select_row :: "emissions_hist \<Rightarrow> emission option" where
  "select_row eh =
     (case (eh_cantidad_toneladas eh, eh_region eh, eh_rubro_vu eh) of
        (Some q, Some reg, Some rub) \<Rightarrow>
          if 2005 \<le> eh_period eh \<and> eh_period eh \<le> 2023
          then Some \<lparr>period = eh_period eh, region_norm = case_region_norm reg,
                     id_vu = eh_id_vu eh,
                     nombre_establecimiento = eh_nombre_establecimiento eh,
                     rubro_vu = rub, contaminantes = eh_contaminantes eh, emisiones = q\<rparr>
          else None
      | _ \<Rightarrow> None)"

definition load_emissions_data :: "emissions_hist list \<Rightarrow> dataframe" where
  "load_emissions_data table = List.map_filter select_row table"

text \<open>
  The dictionary of \<open>load_regions_geojson\<close>, and \<open>gdf["Region"].map(mapa_norm)\<close> on one
  name: a name that is no key of the dictionary gets the missing value, \<open>None\<close> here.
\<close>

definition mapa_norm :: "(string \<times> string) list" where
  "mapa_norm =
    [(''Regi'' @ o_acute @ ''n Metropolitana de Santiago'', ''Metropolitana de Santiago''),
     (''Regi'' @ o_acute @ ''n de La Araucan'' @ i_acute @ ''a'', ''La Araucan'' @ i_acute @ ''a''),
     (''Regi'' @ o_acute @ ''n de '' @ N_tilde @ ''uble'', N_tilde @ ''uble''),
     (''Regi'' @ o_acute @ ''n de Coquimbo'', ''Coquimbo''),
     (''Regi'' @ o_acute @ ''n de Tarapac'' @ a_acute, ''Tarapac'' @ a_acute),
     (''Regi'' @ o_acute @ ''n de Antofagasta'', ''Antofagasta''),
     (''Regi'' @ o_acute @ ''n de Los Lagos'', ''Los Lagos''),
     (''Regi'' @ o_acute @ ''n de Los R'' @ i_acute @ ''os'', ''Los R'' @ i_acute @ ''os''),
     (''Regi'' @ o_acute @ ''n de Atacama'', ''Atacama''),
     (''Regi'' @ o_acute @ ''n del B'' @ i_acute @ ''o-B'' @ i_acute @ ''o'', ''Biob'' @ i_acute @ ''o''),
     (''Regi'' @ o_acute @ ''n del Maule'', ''Maule''),
     (''Regi'' @ o_acute @ ''n de Arica y Parinacota'', ''Arica y Parinacota''),
     (''Regi'' @ o_acute @ ''n de Valpara'' @ i_acute @ ''so'', ''Valpara'' @ i_acute @ ''so''),
     (''Regi'' @ o_acute @ ''n de Magallanes y Ant'' @ a_acute @ ''rtica Chilena'',
      ''Magallanes y de la Ant'' @ a_acute @ ''rtica Chilena''),
     (''Regi'' @ o_acute @ ''n de Ays'' @ e_acute @ ''n del Gral.Iba'' @ n_tilde @ ''ez del Campo'',
      ''Ays'' @ e_acute @ ''n del General Carlos Ib'' @ a_acute @ n_tilde @ ''ez del Campo''),
     (''Regi'' @ o_acute @ ''n del Libertador Bernardo O'' @ [CHR 0x27] @ ''Higgins'',
      ''Libertador General Bernardo O'' @ [CHR 0x27] @ ''Higgins''),
     (''Zona sin demarcar'', ''Sin demarcar'')]"

definition map_mapa_norm :: "string \<Rightarrow> string option" where
  "map_mapa_norm name = map_of mapa_norm name"

section \<open>The choropleth\<close>

text \<open>
  A feature of the boundary file after \<open>load_regions_geojson\<close>: its \<open>Region\<close> property,
  the normalised name (missing when the dictionary has no such key) and the geometry,
  whose representation plays no part here.
\<close>

record 'g feature =
  Region :: string
  f_region_norm :: "string option"
  geometry :: 'g

definition load_regions_geojson :: "(string \<times> 'g) list \<Rightarrow> 'g feature list" where
  "load_regions_geojson gdf =
     map (\<lambda>(name, geom). \<lparr>Region = name, f_region_norm = map_mapa_norm name, geometry = geom\<rparr>) gdf"

text \<open>Section 7.3: totals per region, with the key column \<open>REGION_UP\<close>.\<close>

definition emis_region_total :: "dataframe \<Rightarrow> (string \<times> rat) list" where
  "emis_region_total df_filtrado = groupby_sum (\<lambda>r. Some (region_norm r)) df_filtrado"

text \<open>
  A row of \<open>geo_merged\<close>: the feature, its key, and the columns of the matching total
  (missing when the left merge found none).
\<close>

record 'g merged =
  m_feature :: "'g feature"
  m_REGION_UP :: "string option"
  m_region_norm_y :: "string option"
  m_emisiones :: "rat option"

text \<open>
  \<open>gdf_regiones.merge(emis_region_total, on="REGION_UP", how="left")\<close>: every row of the
  left table, in its order, once for each row on the right with an equal key, and once with
  missing values when there is none. The key of a total is never missing, so a feature whose
  key is missing matches none.
\<close>

definition merge_left :: "'g feature list \<Rightarrow> (string \<times> rat) list \<Rightarrow> 'g merged list" where
  "merge_left gdf_regiones totals =
     concat (map (\<lambda>f.
       (let k = map_option upper (f_region_norm f);
            ms = filter (\<lambda>t. Some (upper (fst t)) = k) totals
        in if ms = []
           then [\<lparr>m_feature = f, m_REGION_UP = k, m_region_norm_y = None, m_emisiones = None\<rparr>]
           else map (\<lambda>t. \<lparr>m_feature = f, m_REGION_UP = k,
                           m_region_norm_y = Some (fst t), m_emisiones = Some (snd t)\<rparr>) ms))
       gdf_regiones)"

text \<open>\<open>.fillna({"emisiones": 0})\<close>.\<close>

definition fillna_emisiones :: "'g merged list \<Rightarrow> 'g merged list" where
  "fillna_emisiones rows =
     map (\<lambda>m. (case m_emisiones m of None \<Rightarrow> m\<lparr>m_emisiones := Some 0\<rparr> | Some _ \<Rightarrow> m)) rows"

definition geo_merged :: "'g feature list \<Rightarrow> dataframe \<Rightarrow> 'g merged list" where
  "geo_merged gdf_regiones df_filtrado =
     fillna_emisiones (merge_left gdf_regiones (emis_region_total df_filtrado))"

section \<open>Sample data\<close>

text \<open>
  A small filtered data frame and a small boundary file, on which the theorems below are
  also evaluated. The third row has no facility identifier; the pair of Coquimbo and 2019
  does not occur.
\<close>

definition sample_df :: dataframe where
  "sample_df =
    [\<lparr>period = 2019, region_norm = ''Maule'', id_vu = Some ''17'',
      nombre_establecimiento = Some ''Planta A'', rubro_vu = ''Pesca'',
      contaminantes = Some ''NOx'', emisiones = 500\<rparr>,
     \<lparr>period = 2020, region_norm = ''Maule'', id_vu = Some ''17'',
      nombre_establecimiento = Some ''Planta A'', rubro_vu = ''Pesca'',
      contaminantes = Some ''NOx'', emisiones = 300\<rparr>,
     \<lparr>period = 2019, region_norm = ''Maule'', id_vu = None,
      nombre_establecimiento = Some ''Planta C'', rubro_vu = ''Pesca'',
      contaminantes = None, emisiones = 50\<rparr>,
     \<lparr>period = 2020, region_norm = ''Coquimbo'', id_vu = Some ''23'',
      nombre_establecimiento = Some ''Mina B'', rubro_vu = ''Cobre'',
      contaminantes = Some ''SO2'', emisiones = 2340000\<rparr>,
     \<lparr>period = 2020, region_norm = ''Maule'', id_vu = Some ''31'',
      nombre_establecimiento = Some ''Planta D'', rubro_vu = ''Cobre'',
      contaminantes = Some ''SO2'', emisiones = 1500\<rparr>]"

definition sample_gdf :: "nat feature list" where
  "sample_gdf =
     load_regions_geojson
       [(''Regi'' @ o_acute @ ''n del Maule'', 1), (''Regi'' @ o_acute @ ''n de Atacama'', 2),
        (''Isla'', 3)]"

section \<open>Conservation of the total\<close>



lemma set_map_filter_key: "set (List.map_filter key df) = {k. \<exists>r \<in> set df. key r = Some k}"
  by (force simp: List.map_filter_def)




section \<open>The ranking of facilities\<close>

lemma set_groupby_sum:
  "set (groupby_sum key df)
   = (\<lambda>k. (k, sum_list (map emisiones (filter (\<lambda>r. key r = Some k) df))))
       ` {k. \<exists>r \<in> set df. key r = Some k}"
  by (simp add: groupby_sum_def set_map_filter_key)

lemma distinct_groupby_sum: "distinct (map fst (groupby_sum key df))"
  by (simp add: groupby_sum_def comp_def)

lemma facility_key_Some:
  "facility_key r = Some (i, n) \<longleftrightarrow> id_vu r = Some i \<and> nombre_establecimiento r = Some n"
  by (auto simp: facility_key_def split: option.splits)

lemma set_sort_values: "set (sort_values asc s) = set s"
  by (cases asc) (simp_all add: sort_values_def)

lemma sort_values_descending:
  "sorted_wrt (\<lambda>a b. snd a \<ge> snd b) (sort_values False s)"
proof -
  have "sorted (map (\<lambda>kv. - snd kv) (sort_key (\<lambda>kv. - snd kv) s))"
    by (rule sorted_sort_key)
  then show ?thesis
    by (simp add: sort_values_def sorted_map)
qed

lemma distinct_keys_sort_values:
  "distinct (map fst (sort_values asc s)) \<longleftrightarrow> distinct (map fst s)"
proof -
  have "mset (map fst (sort_values asc s)) = mset (map fst s)"
    by (cases asc) (simp_all add: sort_values_def)
  then show ?thesis
    by (rule mset_eq_imp_distinct_iff)
qed

lemma sort_values_ascending:
  "sorted_wrt (\<lambda>a b. snd a \<le> snd b) (sort_values True s)"
proof -
  have "sorted (map snd (sort_key snd s))"
    by (rule sorted_sort_key)
  then show ?thesis
    by (simp add: sort_values_def sorted_map)
qed

text \<open>
  C2. The Top 10 of a group has at most ten entries, in non-increasing order of their sums;
  a facility is listed at most once, and the sum listed for it is the sum of the rows of
  the group that carry its identifier and name.
\<close>

theorem top10_ranked:
  "length (top10 g) \<le> 10
   \<and> sorted_wrt (\<lambda>a b. snd a \<ge> snd b) (top10 g)
   \<and> distinct (map fst (top10 g))
   \<and> (\<forall>e \<in> set (top10 g).
         snd e = sum_list (map emisiones
                   (filter (\<lambda>r. id_vu r = Some (fst (fst e))
                               \<and> nombre_establecimiento r = Some (snd (fst e))) g)))"
proof (intro conjI ballI)
  show "length (top10 g) \<le> 10"
    by (simp add: top10_def)
  show "sorted_wrt (\<lambda>a b. snd a \<ge> snd b) (top10 g)"
    unfolding top10_def by (intro sorted_wrt_take sort_values_descending)
  have "distinct (map fst (sort_values False (groupby_sum facility_key g)))"
    by (simp add: distinct_keys_sort_values distinct_groupby_sum)
  then show "distinct (map fst (top10 g))"
    unfolding top10_def take_map[symmetric] by (rule distinct_take)
next
  fix e assume "e \<in> set (top10 g)"
  then have "e \<in> set (groupby_sum facility_key g)"
    unfolding top10_def using set_sort_values in_set_takeD by fast
  then obtain k where e: "e = (k, sum_list (map emisiones (filter (\<lambda>r. facility_key r = Some k) g)))"
    by (auto simp: set_groupby_sum)
  obtain i n where k: "k = (i, n)" by (cases k)
  show "snd e = sum_list (map emisiones
                   (filter (\<lambda>r. id_vu r = Some (fst (fst e))
                               \<and> nombre_establecimiento r = Some (snd (fst e))) g))"
    by (simp add: e k facility_key_Some)
qed

theorem top10_ranked_witness:
  "((''17'', ''Planta A''), 800) \<in> set (top10 sample_df)
   \<and> (800 :: rat) = sum_list (map emisiones
         (filter (\<lambda>r. id_vu r = Some ''17'' \<and> nombre_establecimiento r = Some ''Planta A'')
            sample_df))
   \<and> top10 sample_df
       = [((''23'', ''Mina B''), 2340000), ((''31'', ''Planta D''), 1500), ((''17'', ''Planta A''), 800)]"
proof -
  have t: "top10 sample_df
       = [((''23'', ''Mina B''), 2340000), ((''31'', ''Planta D''), 1500), ((''17'', ''Planta A''), 800)]"
    by code_simp
  have m: "((''17'', ''Planta A''), 800) \<in> set (top10 sample_df)"
    by (simp add: t)
  from top10_ranked[of sample_df] m
  have "snd ((''17'', ''Planta A''), 800 :: rat) = sum_list (map emisiones
         (filter (\<lambda>r. id_vu r = Some (fst (fst ((''17'', ''Planta A''), 800 :: rat)))
              \<and> nombre_establecimiento r = Some (snd (fst ((''17'', ''Planta A''), 800 :: rat))))
            sample_df))"
    by blast
  then show ?thesis using m t by simp
qed

section \<open>The filter\<close>

lemma applies_absent [simp]:
  "\<not> applies None" "\<not> applies (Some ''Todos'')" "\<not> applies (Some [])"
  by (simp_all add: applies_def)

text \<open>
  C3. When each of rubro, contaminante and region is missing or the word \<open>Todos\<close>, and
  both year bounds are missing, the filter returns the data frame it was given, rows and
  order unchanged.
\<close>

theorem filtrar_emisiones_no_criteria:
  assumes "rubro = None \<or> rubro = Some ''Todos''"
    and "contaminante = None \<or> contaminante = Some ''Todos''"
    and "region = None \<or> region = Some ''Todos''"
  shows "filtrar_emisiones df rubro contaminante region None None = df"
proof -
  from assms have "\<not> applies rubro" "\<not> applies contaminante" "\<not> applies region"
    by auto
  then show ?thesis
    by (simp add: filtrar_emisiones_def)
qed

theorem filtrar_emisiones_no_criteria_witness:
  "filtrar_emisiones sample_df (Some ''Todos'') None (Some ''Todos'') None None = sample_df"
  using filtrar_emisiones_no_criteria[of "Some ''Todos''" None "Some ''Todos''" sample_df]
  by simp

text \<open>
  The English word \<open>all\<close> is no sentinel of the program: as a rubro it is compared with
  the column like any other value.
\<close>

lemma filtrar_emisiones_all_is_a_value:
  "filtrar_emisiones sample_df (Some ''all'') None None None None = []"
  by (simp add: filtrar_emisiones_def applies_def sample_df_def)

text \<open>
  C4. When exactly one of the two year bounds is missing, the years are not filtered at
  all: the result is that of the same call without any bound, namely the rows that pass
  the criteria on rubro, contaminante and region, whatever their period.
\<close>

theorem filtrar_emisiones_partial_years:
  assumes "(anio_min = None) \<noteq> (anio_max = None)"
  shows "filtrar_emisiones df rubro contaminante region anio_min anio_max
           = filtrar_emisiones df rubro contaminante region None None
         \<and> filtrar_emisiones df rubro contaminante region anio_min anio_max
           = filter (\<lambda>r. (applies rubro \<longrightarrow> Some (rubro_vu r) = rubro)
                        \<and> (applies contaminante \<longrightarrow> contaminantes r = contaminante)
                        \<and> (applies region \<longrightarrow> Some (region_norm r) = region)) df"
proof -
  have one: "(case (anio_min, anio_max) of
                (Some lo, Some hi) \<Rightarrow> filter (\<lambda>r. period r \<ge> lo \<and> period r \<le> hi) d
              | _ \<Rightarrow> d) = d" for d :: dataframe
    using assms by (cases anio_min; cases anio_max) simp_all
  have some: "applies c \<Longrightarrow> c \<noteq> None" for c
    by (cases c) (simp_all add: applies_def)
  have "filtrar_emisiones df rubro contaminante region anio_min anio_max
        = filter (\<lambda>r. (applies rubro \<longrightarrow> Some (rubro_vu r) = rubro)
                        \<and> (applies contaminante \<longrightarrow> contaminantes r = contaminante)
                        \<and> (applies region \<longrightarrow> Some (region_norm r) = region)) df"
    unfolding filtrar_emisiones_def Let_def one
    by (auto intro!: filter_cong dest: some simp: conj_commute)
  moreover
  have "filtrar_emisiones df rubro contaminante region anio_min anio_max
           = filtrar_emisiones df rubro contaminante region None None"
    unfolding filtrar_emisiones_def Let_def one by simp
  ultimately show ?thesis by simp
qed

theorem filtrar_emisiones_partial_years_witness:
  "((Some 2020 :: int option) = None) \<noteq> ((None :: int option) = None)
   \<and> filtrar_emisiones sample_df (Some ''Pesca'') None None (Some 2020) None
     = take 3 sample_df
   \<and> map period (filtrar_emisiones sample_df (Some ''Pesca'') None None (Some 2020) None)
     = [2019, 2020, 2019]"
proof -
  have h: "((Some 2020 :: int option) = None) \<noteq> ((None :: int option) = None)"
    by simp
  have "filtrar_emisiones sample_df (Some ''Pesca'') None None (Some 2020) None
        = filter (\<lambda>r. (applies (Some ''Pesca'') \<longrightarrow> Some (rubro_vu r) = Some ''Pesca'')
                        \<and> (applies None \<longrightarrow> contaminantes r = None)
                        \<and> (applies None \<longrightarrow> Some (region_norm r) = None)) sample_df"
    using filtrar_emisiones_partial_years[OF h, of sample_df "Some ''Pesca''" None None]
    by (elim conjE)
  also have "\<dots> = take 3 sample_df"
    by (simp add: sample_df_def applies_def)
  finally have r: "filtrar_emisiones sample_df (Some ''Pesca'') None None (Some 2020) None
        = take 3 sample_df" .
  show ?thesis
    unfolding r using h by (simp add: sample_df_def)
qed

section \<open>The rendering of quantities\<close>




lemma format_fixed_decimals:
  assumes "0 < d"
  shows "\<exists>ip fp. format_fixed d x = ip @ ''.'' @ fp \<and> length fp = d"
proof -
  define ds where "ds = show_nat (nat (round_half_even (\<bar>x\<bar> * 10 ^ d)))"
  define padded where "padded = replicate (Suc d - length ds) (CHR ''0'') @ ds"
  have len: "d < length padded"
    by (simp add: padded_def)
  have "format_fixed d x
        = ((if x < 0 then ''-'' else []) @ take (length padded - d) padded)
          @ ''.'' @ drop (length padded - d) padded"
    using assms by (simp add: format_fixed_def Let_def ds_def padded_def)
  moreover have "length (drop (length padded - d) padded) = d"
    using len by simp
  ultimately show ?thesis by blast
qed



lemma format_fixed_500: "format_fixed 2 (500 / 1000000) = ''0.00''"
  by code_simp




text \<open>
  C9. A facility label always renders the quantity divided by one million with two
  decimals, followed by \<open> M\<close>, whatever its size: 500 tonnes are \<open>0.00 M\<close>. The three
  Top 10 lists (by region, by rubro, and of a cell of the heat map) are all made of these
  labels.
\<close>

theorem facility_label_millions:
  "facility_label ((i, n), v)
     = i @ '' '' @ en_dash @ '' '' @ n @ '' ('' @ format_fixed 2 (v / 1000000) @ '' M)''
   \<and> (\<exists>ip fp. format_fixed 2 (v / 1000000) = ip @ ''.'' @ fp \<and> length fp = 2)
   \<and> facility_label ((i, n), 500) = i @ '' '' @ en_dash @ '' '' @ n @ '' (0.00 M)''
   \<and> top10_list df
       = map (\<lambda>region. join ''<br>''
               (map facility_label (top10 (filter (\<lambda>r. region_norm r = region) df))))
           (map fst (emis_region df))
   \<and> top10_rubro df
       = map (\<lambda>rubro. join ''<br>''
               (map facility_label (top10 (filter (\<lambda>r. rubro_vu r = rubro) df))))
           (map fst (emis_rubro df))
   \<and> (filter (\<lambda>r. region_norm r = region \<and> period r = year) df \<noteq> [] \<longrightarrow>
        top10_str df region year
          = join ''<br>'' (map facility_label
              (top10 (filter (\<lambda>r. region_norm r = region \<and> period r = year) df))))"
proof (intro conjI impI)
  show "facility_label ((i, n), v)
     = i @ '' '' @ en_dash @ '' '' @ n @ '' ('' @ format_fixed 2 (v / 1000000) @ '' M)''"
    by (simp add: facility_label_def)
  show "\<exists>ip fp. format_fixed 2 (v / 1000000) = ip @ ''.'' @ fp \<and> length fp = 2"
    by (rule format_fixed_decimals) simp
  show "facility_label ((i, n), 500) = i @ '' '' @ en_dash @ '' '' @ n @ '' (0.00 M)''"
    unfolding facility_label_def prod.case format_fixed_500 by simp
  show "top10_list df
       = map (\<lambda>region. join ''<br>''
               (map facility_label (top10 (filter (\<lambda>r. region_norm r = region) df))))
           (map fst (emis_region df))"
    by (simp add: top10_list_def top10_html_def lista_html_def)
  show "top10_rubro df
       = map (\<lambda>rubro. join ''<br>''
               (map facility_label (top10 (filter (\<lambda>r. rubro_vu r = rubro) df))))
           (map fst (emis_rubro df))"
    by (simp add: top10_rubro_def top10_html_def lista_html_def)
next
  assume "filter (\<lambda>r. region_norm r = region \<and> period r = year) df \<noteq> []"
  then show "top10_str df region year
          = join ''<br>'' (map facility_label
              (top10 (filter (\<lambda>r. region_norm r = region \<and> period r = year) df)))"
    by (simp add: top10_str_def top10_html_def lista_html_def Let_def)
qed

theorem facility_label_millions_witness:
  "filter (\<lambda>r. region_norm r = ''Maule'' \<and> period r = 2019) sample_df \<noteq> []
   \<and> top10_str sample_df ''Maule'' 2019 = ''17 '' @ en_dash @ '' Planta A (0.00 M)''"
proof -
  have h: "filter (\<lambda>r. region_norm r = ''Maule'' \<and> period r = 2019) sample_df \<noteq> []"
    by (simp add: sample_df_def)
  have "top10_str sample_df ''Maule'' 2019
          = join ''<br>'' (map facility_label
              (top10 (filter (\<lambda>r. region_norm r = ''Maule'' \<and> period r = 2019) sample_df)))"
    using facility_label_millions[of "[]" "[]" 0 sample_df "''Maule''" 2019] h by blast
  also have "\<dots> = ''17 '' @ en_dash @ '' Planta A (0.00 M)''"
    by code_simp
  finally show ?thesis using h by simp
qed

section \<open>The table of the heat map\<close>

lemma map_of_groupby_sum:
  "map_of (groupby_sum key df) k
   = (if \<exists>r \<in> set df. key r = Some k
      then Some (sum_list (map emisiones (filter (\<lambda>r. key r = Some k) df)))
      else None)"
  by (simp add: groupby_sum_def map_of_map_restrict restrict_map_def set_map_filter_key)

lemma set_regions: "set (regions df) = region_norm ` set df"
  by (force simp: regions_def pivot_groups_def set_groupby_sum)

lemma set_years: "set (years df) = period ` set df"
  by (force simp: years_def pivot_groups_def set_groupby_sum)

lemma pivot_cell:
  "(case map_of (pivot_groups df) (region, year) of None \<Rightarrow> 0 | Some v \<Rightarrow> v)
   = sum_list (map emisiones (filter (\<lambda>r. region_norm r = region \<and> period r = year) df))"
proof (cases "\<exists>r \<in> set df. region_norm r = region \<and> period r = year")
  case True
  then show ?thesis
    by (simp add: pivot_groups_def map_of_groupby_sum)
next
  case False
  then have "filter (\<lambda>r. region_norm r = region \<and> period r = year) df = []"
    by (auto simp: filter_empty_conv)
  with False show ?thesis
    by (simp add: pivot_groups_def map_of_groupby_sum)
qed

lemma z_vals_cell:
  assumes "i < length (regions df)" and "j < length (years df)"
  shows "z_vals df ! i ! j
         = sum_list (map emisiones
             (filter (\<lambda>r. region_norm r = regions df ! i \<and> period r = years df ! j) df))"
  using assms by (simp add: z_vals_def pivot_cell)

lemma hovertext_cell:
  assumes "i < length (regions df)" and "j < length (years df)"
  shows "hovertext df ! i ! j
         = hover_html df (regions df ! i) (years df ! j) (z_vals df ! i ! j)"
  using assms by (simp add: hovertext_def)

lemma text_vals_cell:
  assumes "i < length (regions df)" and "j < length (years df)"
  shows "text_vals df ! i ! j = cell_text (z_vals df ! i ! j)"
  using assms by (simp add: text_vals_def z_vals_def)

lemma cell_text_0: "cell_text 0 = ''0''"
  by code_simp

text \<open>
  C8. The table of the heat map has a row for every region that occurs and, in each row, a
  cell for every year that occurs. A cell whose region and year have no row in the data
  holds the total 0, shown as \<open>0\<close>, and its hover text lists \<open>Sin datos\<close> in place of
  facilities.
\<close>

theorem pivot_dense:
  "set (regions df) = region_norm ` set df
   \<and> set (years df) = period ` set df
   \<and> length (z_vals df) = length (regions df)
   \<and> (\<forall>row \<in> set (z_vals df). length row = length (years df))
   \<and> (\<forall>i < length (regions df). \<forall>j < length (years df).
        filter (\<lambda>r. region_norm r = regions df ! i \<and> period r = years df ! j) df = [] \<longrightarrow>
          z_vals df ! i ! j = 0
          \<and> text_vals df ! i ! j = ''0''
          \<and> top10_str df (regions df ! i) (years df ! j) = ''Sin datos''
          \<and> hovertext df ! i ! j
              = ''<b>Regi'' @ o_acute @ ''n:</b> '' @ regions df ! i @ ''<br>''
                @ ''<b>A'' @ n_tilde @ ''o:</b> '' @ show_int (years df ! j) @ ''<br>''
                @ ''<b>Emisiones:</b> '' @ emis_str 0 @ ''<br><br>''
                @ ''<b>Top 10 Establecimientos:</b><br>'' @ ''Sin datos'')"
proof (intro conjI allI impI ballI)
  show "set (regions df) = region_norm ` set df" by (rule set_regions)
  show "set (years df) = period ` set df" by (rule set_years)
  show "length (z_vals df) = length (regions df)" by (simp add: z_vals_def)
next
  fix row assume "row \<in> set (z_vals df)"
  then show "length row = length (years df)" by (auto simp: z_vals_def)
next
  fix i j
  assume i: "i < length (regions df)" and j: "j < length (years df)"
    and e: "filter (\<lambda>r. region_norm r = regions df ! i \<and> period r = years df ! j) df = []"
  show z: "z_vals df ! i ! j = 0"
    by (simp add: z_vals_cell[OF i j] e)
  show "text_vals df ! i ! j = ''0''"
    by (simp only: text_vals_cell[OF i j] z cell_text_0)
  show t: "top10_str df (regions df ! i) (years df ! j) = ''Sin datos''"
    by (simp add: top10_str_def e)
  show "hovertext df ! i ! j
              = ''<b>Regi'' @ o_acute @ ''n:</b> '' @ regions df ! i @ ''<br>''
                @ ''<b>A'' @ n_tilde @ ''o:</b> '' @ show_int (years df ! j) @ ''<br>''
                @ ''<b>Emisiones:</b> '' @ emis_str 0 @ ''<br><br>''
                @ ''<b>Top 10 Establecimientos:</b><br>'' @ ''Sin datos''"
    by (simp only: hovertext_cell[OF i j] z hover_html_def t)
qed

theorem pivot_dense_witness:
  "regions sample_df = [''Coquimbo'', ''Maule''] \<and> years sample_df = [2019, 2020]
   \<and> filter (\<lambda>r. region_norm r = ''Coquimbo'' \<and> period r = 2019) sample_df = []
   \<and> z_vals sample_df ! 0 ! 0 = 0
   \<and> top10_str sample_df ''Coquimbo'' 2019 = ''Sin datos''"
proof -
  have r: "regions sample_df = [''Coquimbo'', ''Maule'']" by code_simp
  have y: "years sample_df = [2019, 2020]" by code_simp
  have e: "filter (\<lambda>r. region_norm r = ''Coquimbo'' \<and> period r = 2019) sample_df = []"
    by (simp add: sample_df_def)
  have i: "0 < length (regions sample_df)" and j: "0 < length (years sample_df)"
    by (simp_all add: r y)
  have e0: "filter (\<lambda>r. region_norm r = regions sample_df ! 0 \<and> period r = years sample_df ! 0)
              sample_df = []"
    using e by (simp add: r y)
  have "\<forall>i < length (regions sample_df). \<forall>j < length (years sample_df).
        filter (\<lambda>r. region_norm r = regions sample_df ! i \<and> period r = years sample_df ! j)
          sample_df = [] \<longrightarrow>
          z_vals sample_df ! i ! j = 0
          \<and> text_vals sample_df ! i ! j = ''0''
          \<and> top10_str sample_df (regions sample_df ! i) (years sample_df ! j) = ''Sin datos''
          \<and> hovertext sample_df ! i ! j
              = ''<b>Regi'' @ o_acute @ ''n:</b> '' @ regions sample_df ! i @ ''<br>''
                @ ''<b>A'' @ n_tilde @ ''o:</b> '' @ show_int (years sample_df ! j) @ ''<br>''
                @ ''<b>Emisiones:</b> '' @ emis_str 0 @ ''<br><br>''
                @ ''<b>Top 10 Establecimientos:</b><br>'' @ ''Sin datos''"
    using pivot_dense[of sample_df] by (elim conjE)
  from this[rule_format, OF i j e0]
  have "z_vals sample_df ! 0 ! 0 = 0 \<and> top10_str sample_df ''Coquimbo'' 2019 = ''Sin datos''"
    by (simp add: r y)
  then show ?thesis using r y e by simp
qed

section \<open>The merge of the choropleth\<close>

lemma m_feature_fillna: "map m_feature (fillna_emisiones rows) = map m_feature rows"
  by (induction rows) (auto simp: fillna_emisiones_def split: option.splits)

lemma merge_left_feature:
  assumes "f \<in> set gdf"
  shows "\<exists>m \<in> set (merge_left gdf totals). m_feature m = f"
proof -
  let ?k = "map_option upper (f_region_norm f)"
  let ?ms = "filter (\<lambda>t. Some (upper (fst t)) = ?k) totals"
  show ?thesis
  proof (cases "?ms = []")
    case True
    then have "\<lparr>m_feature = f, m_REGION_UP = ?k, m_region_norm_y = None, m_emisiones = None\<rparr>
                 \<in> set (merge_left gdf totals)"
      using assms unfolding merge_left_def Let_def by (auto intro!: bexI[of _ f])
    then show ?thesis by force
  next
    case False
    then obtain t where "t \<in> set ?ms" by (cases ?ms) auto
    then have "\<lparr>m_feature = f, m_REGION_UP = ?k, m_region_norm_y = Some (fst t),
                 m_emisiones = Some (snd t)\<rparr> \<in> set (merge_left gdf totals)"
      using assms False unfolding merge_left_def Let_def by (auto intro!: bexI[of _ f])
    then show ?thesis by force
  qed
qed

lemma merge_left_unmatched:
  assumes "m \<in> set (merge_left gdf totals)"
    and "\<forall>t \<in> set totals. Some (upper (fst t)) \<noteq> map_option upper (f_region_norm (m_feature m))"
  shows "m_emisiones m = None"
proof -
  from assms(1) obtain f where f: "f \<in> set gdf"
    and m: "m \<in> set (let k = map_option upper (f_region_norm f);
            ms = filter (\<lambda>t. Some (upper (fst t)) = k) totals
        in if ms = []
           then [\<lparr>m_feature = f, m_REGION_UP = k, m_region_norm_y = None, m_emisiones = None\<rparr>]
           else map (\<lambda>t. \<lparr>m_feature = f, m_REGION_UP = k,
                           m_region_norm_y = Some (fst t), m_emisiones = Some (snd t)\<rparr>) ms)"
    unfolding merge_left_def by auto
  have mf: "m_feature m = f"
    using m by (auto simp: Let_def split: if_splits)
  have "filter (\<lambda>t. Some (upper (fst t)) = map_option upper (f_region_norm f)) totals = []"
    using assms(2) mf by (auto simp: filter_empty_conv)
  then show ?thesis using m by (simp add: Let_def)
qed

text \<open>
  C10. Every feature of the boundary data has a row in \<open>geo_merged\<close>, no row is left
  without a value of \<open>emisiones\<close>, and the row of a feature whose upper-cased name equals
  that of no regional total of the filtered data has the value 0.
\<close>

theorem geo_merged_keeps_features:
  "(\<forall>f \<in> set gdf. \<exists>m \<in> set (geo_merged gdf df). m_feature m = f)
   \<and> (\<forall>m \<in> set (geo_merged gdf df). m_emisiones m \<noteq> None)
   \<and> (\<forall>m \<in> set (geo_merged gdf df).
        (\<forall>t \<in> set (emis_region_total df).
            Some (upper (fst t)) \<noteq> map_option upper (f_region_norm (m_feature m)))
        \<longrightarrow> m_emisiones m = Some 0)"
proof (intro conjI ballI impI)
  fix f assume "f \<in> set gdf"
  then obtain m where "m \<in> set (merge_left gdf (emis_region_total df))" "m_feature m = f"
    using merge_left_feature by blast
  then have "f \<in> set (map m_feature (merge_left gdf (emis_region_total df)))"
    by force
  then have "f \<in> set (map m_feature (geo_merged gdf df))"
    by (simp only: geo_merged_def m_feature_fillna)
  then show "\<exists>m \<in> set (geo_merged gdf df). m_feature m = f"
    by auto
next
  fix m assume "m \<in> set (geo_merged gdf df)"
  then show "m_emisiones m \<noteq> None"
    by (auto simp: geo_merged_def fillna_emisiones_def split: option.splits)
next
  fix m
  assume m: "m \<in> set (geo_merged gdf df)"
    and u: "\<forall>t \<in> set (emis_region_total df).
            Some (upper (fst t)) \<noteq> map_option upper (f_region_norm (m_feature m))"
  from m obtain m0 where m0: "m0 \<in> set (merge_left gdf (emis_region_total df))"
    and mm: "m = (case m_emisiones m0 of None \<Rightarrow> m0\<lparr>m_emisiones := Some 0\<rparr> | Some _ \<Rightarrow> m0)"
    by (auto simp: geo_merged_def fillna_emisiones_def)
  have same: "m_feature m = m_feature m0"
    using mm by (simp split: option.splits)
  have "m_emisiones m0 = None"
    using merge_left_unmatched[OF m0] u same by simp
  then show "m_emisiones m = Some 0"
    using mm by simp
qed

theorem geo_merged_keeps_features_witness:
  "map (\<lambda>m. (Region (m_feature m), m_REGION_UP m, m_emisiones m)) (geo_merged sample_gdf sample_df)
     = [(''Regi'' @ o_acute @ ''n del Maule'', Some ''MAULE'', Some 2350),
        (''Regi'' @ o_acute @ ''n de Atacama'', Some ''ATACAMA'', Some 0),
        (''Isla'', None, Some 0)]
   \<and> (\<exists>m \<in> set (geo_merged sample_gdf sample_df). m_feature m = sample_gdf ! 1)
   \<and> (\<exists>m \<in> set (geo_merged sample_gdf sample_df).
         m_feature m = sample_gdf ! 1 \<and> m_emisiones m = Some 0)"
proof -
  have g: "map (\<lambda>m. (Region (m_feature m), m_REGION_UP m, m_emisiones m))
             (geo_merged sample_gdf sample_df)
     = [(''Regi'' @ o_acute @ ''n del Maule'', Some ''MAULE'', Some 2350),
        (''Regi'' @ o_acute @ ''n de Atacama'', Some ''ATACAMA'', Some 0),
        (''Isla'', None, Some 0)]"
    by code_simp
  have f: "sample_gdf ! 1 \<in> set sample_gdf"
    by (simp add: sample_gdf_def load_regions_geojson_def)
  have k: "map_option upper (f_region_norm (sample_gdf ! 1)) = Some ''ATACAMA''"
    by code_simp
  have t: "map (upper \<circ> fst) (emis_region_total sample_df) = [''COQUIMBO'', ''MAULE'']"
    by code_simp
  have u: "\<forall>t \<in> set (emis_region_total sample_df).
            Some (upper (fst t)) \<noteq> map_option upper (f_region_norm (sample_gdf ! 1))"
  proof
    fix x assume "x \<in> set (emis_region_total sample_df)"
    then have "upper (fst x) \<in> set (map (upper \<circ> fst) (emis_region_total sample_df))"
      by force
    then show "Some (upper (fst x)) \<noteq> map_option upper (f_region_norm (sample_gdf ! 1))"
      unfolding t k by auto
  qed
  note w = geo_merged_keeps_features[of sample_gdf sample_df]
  from w f obtain m where m: "m \<in> set (geo_merged sample_gdf sample_df)"
    "m_feature m = sample_gdf ! 1"
    by blast
  from w m u have "m_emisiones m = Some 0"
    by metis
  with m g show ?thesis by blast
qed

section \<open>The names of the regions\<close>

lemma trim_idem: "trim (trim s) = trim s"
proof -
  let ?sp = "\<lambda>c. c = CHR '' ''"
  define t where "t = dropWhile ?sp s"
  define u where "u = dropWhile ?sp (rev t)"
  have trim: "trim s = rev u"
    by (simp add: trim_def t_def u_def)
  have "rev t = takeWhile ?sp (rev t) @ u"
    by (simp add: u_def)
  then have "rev (rev t) = rev (takeWhile ?sp (rev t) @ u)"
    by simp
  then have t_split: "t = rev u @ rev (takeWhile ?sp (rev t))"
    by simp
  have front: "dropWhile ?sp (rev u) = rev u"
  proof (cases "rev u")
    case Nil
    then show ?thesis by simp
  next
    case (Cons c cs)
    then have ne: "t \<noteq> []"
      using t_split by auto
    have c: "hd t = c"
      using t_split Cons by (metis hd_append2 list.sel(1) list.distinct(1))
    have "\<not> ?sp (hd t)"
      using ne unfolding t_def by (rule hd_dropWhile)
    then show ?thesis
      using Cons c by simp
  qed
  have rear: "dropWhile ?sp u = u"
    by (simp add: u_def)
  show ?thesis
    unfolding trim trim_def[of "rev u"] front by (simp add: rear)
qed

lemma first_match_lowered:
  "first_match cs s
   = map_option snd (find (\<lambda>c. like (lower s) (fst c)) (map (\<lambda>c. (lower (fst c), snd c)) cs))"
  by (induction cs) (auto simp: ilike_def)

lemma first_match_result: "first_match cs s = Some r \<Longrightarrow> r \<in> snd ` set cs"
  by (induction cs) (auto split: if_splits)

lemma first_match_None: "first_match cs s = None \<longleftrightarrow> (\<forall>c \<in> set cs. \<not> ilike s (fst c))"
  by (induction cs) (auto split: if_splits)

lemma canonical_names_fixed:
  "list_all (\<lambda>r. case_region_norm r = r) (map snd region_cases @ map snd mapa_norm)"
proof -
  let ?lowered =
    "[(''metropolitana%'', ''Metropolitana de Santiago''),
      (''araucan'' @ i_acute @ ''a'', ''La Araucan'' @ i_acute @ ''a''),
      (n_tilde @ ''uble'', N_tilde @ ''uble''),
      (''coquimbo'', ''Coquimbo''),
      (''tarapac'' @ a_acute, ''Tarapac'' @ a_acute),
      (''antofagasta'', ''Antofagasta''),
      (''la araucan'' @ i_acute @ ''a'', ''La Araucan'' @ i_acute @ ''a''),
      (''los lagos'', ''Los Lagos''),
      (''los r'' @ i_acute @ ''os'', ''Los R'' @ i_acute @ ''os''),
      (''atacama'', ''Atacama''),
      (''biob'' @ i_acute @ ''o'', ''Biob'' @ i_acute @ ''o''),
      (''maule'', ''Maule''),
      (''arica y parinacota'', ''Arica y Parinacota''),
      (''valpara'' @ i_acute @ ''so'', ''Valpara'' @ i_acute @ ''so''),
      (''magallanes y de la ant'' @ a_acute @ ''rtica chilena'',
       ''Magallanes y de la Ant'' @ a_acute @ ''rtica Chilena''),
      (''magallanes'', ''Magallanes y de la Ant'' @ a_acute @ ''rtica Chilena''),
      (''o'' @ [CHR 0x27] @ ''higgins'',
       ''Libertador General Bernardo O'' @ [CHR 0x27] @ ''Higgins''),
      (''libertador gral. bernardo o'' @ [CHR 0x27] @ ''higgins'',
       ''Libertador General Bernardo O'' @ [CHR 0x27] @ ''Higgins''),
      (''ays'' @ e_acute @ ''n del gral. carlos ib'' @ a_acute @ n_tilde @ ''ez del campo'',
       ''Ays'' @ e_acute @ ''n del General Carlos Ib'' @ a_acute @ n_tilde @ ''ez del Campo''),
      (''ays'' @ e_acute @ ''n del general carlos ib'' @ a_acute @ n_tilde @ ''ez del campo'',
       ''Ays'' @ e_acute @ ''n del General Carlos Ib'' @ a_acute @ n_tilde @ ''ez del Campo'')]"
  have low: "map (\<lambda>c. (lower (fst c), snd c)) region_cases = ?lowered"
    by code_simp
  have "list_all
          (\<lambda>r. (case map_option snd (find (\<lambda>c. like (lower (trim r)) (fst c)) ?lowered) of
                  Some res \<Rightarrow> res
                | None \<Rightarrow> trim r) = r)
          (map snd region_cases @ map snd mapa_norm)"
    by code_simp
  then show ?thesis
    by (simp only: case_region_norm_def first_match_lowered low)
qed

lemma case_region_norm_fixed:
  assumes "r \<in> snd ` set region_cases \<union> snd ` set mapa_norm"
  shows "case_region_norm r = r"
proof -
  from assms have "r \<in> set (map snd region_cases @ map snd mapa_norm)"
    by auto
  with canonical_names_fixed show ?thesis
    unfolding list_all_iff by blast
qed

lemma case_region_norm_idem: "case_region_norm (case_region_norm x) = case_region_norm x"
proof (cases "first_match region_cases (trim x)")
  case None
  then show ?thesis
    by (simp add: case_region_norm_def trim_idem)
next
  case (Some r)
  then have "r \<in> snd ` set region_cases"
    by (rule first_match_result)
  then have "case_region_norm r = r"
    by (simp add: case_region_norm_fixed)
  moreover have "case_region_norm x = r"
    using Some by (simp add: case_region_norm_def)
  ultimately show ?thesis by simp
qed

lemma canonical_names_no_keys:
  "list_all (\<lambda>c. map_of mapa_norm (snd c) = None) mapa_norm"
  by code_simp

text \<open>
  C6, as the program has it. The normalisation of the query is idempotent on every name, so
  on every spelling of its table, and the canonical names of both tables are fixed by it.
  The dictionary of the boundary data is not idempotent: none of its canonical names is one
  of its keys, so a second lookup gives the missing value.
\<close>

theorem case_region_norm_idempotent:
  "case_region_norm (case_region_norm x) = case_region_norm x
   \<and> (\<forall>c \<in> set region_cases.
         case_region_norm (case_region_norm (fst c)) = case_region_norm (fst c)
         \<and> case_region_norm (snd c) = snd c)
   \<and> (\<forall>c \<in> set mapa_norm.
         case_region_norm (snd c) = snd c \<and> map_mapa_norm (snd c) = None)"
proof (intro conjI ballI)
  show "case_region_norm (case_region_norm x) = case_region_norm x"
    by (rule case_region_norm_idem)
next
  fix c assume "c \<in> set region_cases"
  then show "case_region_norm (snd c) = snd c"
    by (intro case_region_norm_fixed) simp
  show "case_region_norm (case_region_norm (fst c)) = case_region_norm (fst c)"
    by (rule case_region_norm_idem)
next
  fix c assume c: "c \<in> set mapa_norm"
  then show "case_region_norm (snd c) = snd c"
    by (intro case_region_norm_fixed) simp
  from c canonical_names_no_keys show "map_mapa_norm (snd c) = None"
    unfolding list_all_iff map_mapa_norm_def by blast
qed

theorem case_region_norm_idempotent_witness:
  "case_region_norm '' magallanes '' = ''Magallanes y de la Ant'' @ a_acute @ ''rtica Chilena''
   \<and> case_region_norm (case_region_norm '' magallanes '')
       = ''Magallanes y de la Ant'' @ a_acute @ ''rtica Chilena''
   \<and> case_region_norm ''Maule'' = ''Maule''
   \<and> map_mapa_norm (''Regi'' @ o_acute @ ''n del Maule'') = Some ''Maule''
   \<and> map_mapa_norm ''Maule'' = None"
proof -
  note w = case_region_norm_idempotent[of "'' magallanes ''"]
  have m: "case_region_norm '' magallanes ''
           = ''Magallanes y de la Ant'' @ a_acute @ ''rtica Chilena''"
    by code_simp
  have k: "(''Regi'' @ o_acute @ ''n del Maule'', ''Maule'') \<in> set mapa_norm"
    by (simp add: mapa_norm_def)
  have l: "map_mapa_norm (''Regi'' @ o_acute @ ''n del Maule'') = Some ''Maule''"
    by code_simp
  from w k have "case_region_norm (snd (''Regi'' @ o_acute @ ''n del Maule'', ''Maule'')) 
                   = snd (''Regi'' @ o_acute @ ''n del Maule'', ''Maule'')
                 \<and> map_mapa_norm (snd (''Regi'' @ o_acute @ ''n del Maule'', ''Maule'')) = None"
    by blast
  moreover from w have "case_region_norm (case_region_norm '' magallanes '')
                        = case_region_norm '' magallanes ''"
    by blast
  ultimately show ?thesis
    using m l by simp
qed

theorem map_mapa_norm_twice_counterexample:
  "Option.bind (map_mapa_norm (''Regi'' @ o_acute @ ''n de Coquimbo'')) map_mapa_norm
   \<noteq> map_mapa_norm (''Regi'' @ o_acute @ ''n de Coquimbo'')"
  by code_simp

lemma sin_demarcar_key:
  "map_of mapa_norm name = Some ''Sin demarcar'' \<longleftrightarrow> name = ''Zona sin demarcar''"
  by (auto simp: mapa_norm_def a_acute_def e_acute_def i_acute_def o_acute_def n_tilde_def
        N_tilde_def split: if_splits)

text \<open>
  C7, as the program has it. A name that matches no branch of the query's \<open>CASE\<close> is
  returned trimmed and otherwise unchanged. A name that is no key of the dictionary of the
  boundary data gets the missing value; \<open>Sin demarcar\<close> is the entry of the one key
  \<open>Zona sin demarcar\<close>, not a fallback. Neither side fails.
\<close>

theorem unmatched_region_fallback:
  "((\<forall>c \<in> set region_cases. \<not> ilike (trim region) (fst c)) \<longrightarrow>
       case_region_norm region = trim region)
   \<and> (name \<notin> fst ` set mapa_norm \<longrightarrow> map_mapa_norm name = None)
   \<and> (map_mapa_norm name = Some ''Sin demarcar'' \<longleftrightarrow> name = ''Zona sin demarcar'')"
proof (intro conjI impI)
  assume "\<forall>c \<in> set region_cases. \<not> ilike (trim region) (fst c)"
  then have "first_match region_cases (trim region) = None"
    by (simp add: first_match_None)
  then show "case_region_norm region = trim region"
    by (simp add: case_region_norm_def)
next
  assume "name \<notin> fst ` set mapa_norm"
  then show "map_mapa_norm name = None"
    by (simp add: map_mapa_norm_def map_of_eq_None_iff)
next
  show "map_mapa_norm name = Some ''Sin demarcar'' \<longleftrightarrow> name = ''Zona sin demarcar''"
    unfolding map_mapa_norm_def by (rule sin_demarcar_key)
qed

theorem unmatched_region_fallback_witness:
  "case_region_norm ''  Isla de Pascua '' = ''Isla de Pascua''
   \<and> map_mapa_norm ''Isla de Pascua'' = None"
proof -
  have t: "trim ''  Isla de Pascua '' = ''Isla de Pascua''"
    by code_simp
  have "list_all (\<lambda>c. \<not> ilike ''Isla de Pascua'' (fst c)) region_cases"
    by code_simp
  then have h: "\<forall>c \<in> set region_cases. \<not> ilike (trim ''  Isla de Pascua '') (fst c)"
    by (simp add: t list_all_iff)
  have "list_all (\<lambda>c. fst c \<noteq> ''Isla de Pascua'') mapa_norm"
    by code_simp
  then have n: "''Isla de Pascua'' \<notin> fst ` set mapa_norm"
    unfolding list_all_iff by auto
  from unmatched_region_fallback[of "''  Isla de Pascua ''" "''Isla de Pascua''"] h n
  have "case_region_norm ''  Isla de Pascua '' = trim ''  Isla de Pascua ''"
    and "map_mapa_norm ''Isla de Pascua'' = None"
    by blast+
  then show ?thesis by (simp add: t)
qed

theorem map_mapa_norm_unmapped_counterexample:
  "map_mapa_norm ''Isla de Pascua'' \<noteq> Some ''Sin demarcar''"
  by code_simp

section \<open>The loaded rows\<close>

text \<open>
  Every row that \<open>load_emissions_data\<close> returns comes from a row of the table with a
  region, a rubro and a quantity, of a year from 2005 to 2023, and carries the normalised
  name of that region.
\<close>

lemma load_emissions_data_rows:
  assumes "r \<in> set (load_emissions_data table)"
  shows "\<exists>eh \<in> set table. \<exists>reg.
           eh_region eh = Some reg \<and> region_norm r = case_region_norm reg
           \<and> eh_rubro_vu eh = Some (rubro_vu r)
           \<and> eh_cantidad_toneladas eh = Some (emisiones r)
           \<and> period r = eh_period eh \<and> 2005 \<le> period r \<and> period r \<le> 2023"
proof -
  from assms obtain eh where eh: "eh \<in> set table" "select_row eh = Some r"
    by (auto simp: load_emissions_data_def List.map_filter_def)
  from eh(2) obtain q reg rub where
    "eh_cantidad_toneladas eh = Some q" "eh_region eh = Some reg" "eh_rubro_vu eh = Some rub"
    "2005 \<le> eh_period eh \<and> eh_period eh \<le> 2023"
    "r = \<lparr>period = eh_period eh, region_norm = case_region_norm reg, id_vu = eh_id_vu eh,
          nombre_establecimiento = eh_nombre_establecimiento eh, rubro_vu = rub,
          contaminantes = eh_contaminantes eh, emisiones = q\<rparr>"
    by (auto simp: select_row_def split: option.splits if_splits)
  with eh(1) show ?thesis by auto
qed

text \<open>
  Two spellings of one region fall into one group: the canonical name of Tarapaca and the
  same name in small letters with a space behind it.
\<close>

lemma tarapaca_one_group:
  "emis_region (load_emissions_data
     [\<lparr>eh_period = 2020, eh_region = Some (''Tarapac'' @ a_acute), eh_id_vu = None,
       eh_nombre_establecimiento = None, eh_rubro_vu = Some ''Mineria'',
       eh_contaminantes = None, eh_cantidad_toneladas = Some 500\<rparr>,
      \<lparr>eh_period = 2020, eh_region = Some (''tarapac'' @ a_acute @ '' ''), eh_id_vu = None,
       eh_nombre_establecimiento = None, eh_rubro_vu = Some ''Mineria'',
       eh_contaminantes = None, eh_cantidad_toneladas = Some 300\<rparr>])
   = [(''Tarapac'' @ a_acute, 800)]"
  by code_simp

end
